theory Spec2Isabelle
  imports Complex_Main "HOL-Library.AList" "HOL-Library.Char_ord" "HOL-Library.List_Lexorder"
begin

section \<open>icon_font.py: the icon table and the glyph compositor\<close>

text \<open>
  The development follows \<^verbatim>\<open>src/icon_font_to_png/icon_font.py\<close>, class \<^verbatim>\<open>IconFont\<close>.
  Python strings are \<^typ>\<open>string\<close>; their order is the lexicographic order of the
  characters' codes, which is the order \<^verbatim>\<open>sorted\<close> uses on Python strings.
  Every \<^verbatim>\<open>raise\<close> of the interpreter or of a library is a value of \<open>error\<close>.
  The semantics is that of Python 3: \<^verbatim>\<open>/\<close> is the true division and a dict keeps the order
  in which its keys were inserted.
\<close>

datatype error = TypeError | NameError | KeyError | ValueError | ZeroDivisionError | LibraryError

subsection \<open>The stylesheet, as tinycss hands it to \<^verbatim>\<open>load_css\<close>\<close>

text \<open>
  \<^verbatim>\<open>stylesheet.rules\<close> is a sequence of rules; \<^verbatim>\<open>rule.selector.as_css()\<close> is a string and
  \<^verbatim>\<open>rule.declarations\<close> a sequence of declarations with \<^verbatim>\<open>name\<close> and \<^verbatim>\<open>value.as_css()\<close>.
\<close>

record rule =
  selector :: string
  declarations :: "(string \<times> string) list"

subsection \<open>The regular expression \<^verbatim>\<open>\.(.*):before,?\<close>\<close>

text \<open>
  \<^verbatim>\<open>.\<close> matches every character but the newline, \<^verbatim>\<open>.*\<close> is greedy: from a dot, the
  group runs to the last \<^verbatim>\<open>:before\<close> of the same line.
  \<open>last_before s\<close> is the index of the last occurrence of \<^verbatim>\<open>:before\<close> in \<open>s\<close>.
\<close>

fun last_before :: "string \<Rightarrow> nat option" where
  "last_before [] = None"
| "last_before (c # cs) =
     (case last_before cs of
        Some i \<Rightarrow> Some (Suc i)
      | None \<Rightarrow> if take 7 (c # cs) = '':before'' then Some 0 else None)"

text \<open>
  One attempt of the pattern at the start of \<open>s\<close>: the group and the length of the match
  (the dot, the group, \<^verbatim>\<open>:before\<close> and the comma when one follows).
\<close>

definition is_icon_at :: "string \<Rightarrow> (string \<times> nat) option" where
  "is_icon_at s =
     (case s of
        [] \<Rightarrow> None
      | c # rest \<Rightarrow>
          if c \<noteq> CHR ''.'' then None
          else (case last_before (takeWhile (\<lambda>x. x \<noteq> CHR 0x0A) rest) of
                  None \<Rightarrow> None
                | Some i \<Rightarrow>
                    Some (take i rest,
                          1 + i + 7 + (if take 1 (drop (i + 7) rest) = '','' then 1 else 0))))"

text \<open>\<^verbatim>\<open>is_icon.match(selector)\<close>: the pattern anchored at the start of the selector.\<close>

definition is_icon_match :: "string \<Rightarrow> bool" where
  "is_icon_match s = (is_icon_at s \<noteq> None)"

text \<open>
  \<^verbatim>\<open>is_icon.finditer(selector)\<close>: the groups of the successive matches, from left to right,
  each search resuming where the previous match ended.
\<close>

function is_icon_finditer :: "string \<Rightarrow> string list" where
  "is_icon_finditer s =
     (case s of
        [] \<Rightarrow> []
      | c # rest \<Rightarrow>
          (case is_icon_at s of
             None \<Rightarrow> is_icon_finditer rest
           | Some (g, n) \<Rightarrow> g # is_icon_finditer (drop n s)))"
  by pat_completeness auto
termination
proof (relation "measure length")
  show "wf (measure (length :: string \<Rightarrow> nat))" by simp
next
  fix s :: string and c rest
  assume "s = c # rest"
  then show "(rest, s) \<in> measure length" by simp
next
  fix s :: string and c rest x2 g n
  assume "s = c # rest" "is_icon_at s = Some x2" "(g, n) = x2"
  then have "0 < n"
    by (auto simp: is_icon_at_def split: list.splits if_splits option.splits)
  with \<open>s = c # rest\<close> show "(drop n s, s) \<in> measure length" by simp
qed

declare is_icon_finditer.simps [simp del]

subsection \<open>\<^verbatim>\<open>os.path.commonprefix\<close> of two strings\<close>

fun commonprefix :: "string \<Rightarrow> string \<Rightarrow> string" where
  "commonprefix (x # xs) (y # ys) = (if x = y then x # commonprefix xs ys else [])"
| "commonprefix _ _ = []"

subsection \<open>The \<^verbatim>\<open>content\<close> declarations of an icon rule\<close>

text \<open>
  \<^verbatim>\<open>re.match("^['\"].*['\"]$", val)\<close>: a quote, characters of one line, a quote, and the end
  of the string or its final newline.
\<close>

definition is_quote :: "char \<Rightarrow> bool" where
  "is_quote c = (c = CHR 0x27 \<or> c = CHR 0x22)"

definition quoted :: "string \<Rightarrow> bool" where
  "quoted val =
     (let body = (if val \<noteq> [] \<and> last val = CHR 0x0A then butlast val else val)
      in 2 \<le> length body \<and> is_quote (hd body) \<and> is_quote (last body)
         \<and> CHR 0x0A \<notin> set body)"

text \<open>\<^verbatim>\<open>val[1:-1]\<close> when the value is quoted.\<close>

definition strip_quotes :: "string \<Rightarrow> string" where
  "strip_quotes val = (if quoted val then butlast (tl val) else val)"

text \<open>
  The inner loop over \<^verbatim>\<open>rule.declarations\<close> for one icon name. \<open>unichr_int16\<close> stands for
  the library call \<^verbatim>\<open>unichr(int(\<dots>, 16))\<close>: \<open>None\<close> where it raises \<^verbatim>\<open>ValueError\<close>.
  \<^verbatim>\<open>icons[name] = \<dots>\<close> keeps the place of a key the dict already has and appends a new one,
  as \<^const>\<open>AList.update\<close> does.
\<close>

fun set_content ::
  "(string \<Rightarrow> 'g option) \<Rightarrow> string \<Rightarrow> (string \<times> string) list \<Rightarrow> (string \<times> 'g) list
     \<Rightarrow> error + (string \<times> 'g) list" where
  "set_content unichr_int16 name [] icons = Inr icons"
| "set_content unichr_int16 name ((dname, dvalue) # ds) icons =
     (if dname = ''content'' then
        (case unichr_int16 (drop 1 (strip_quotes dvalue)) of
           None \<Rightarrow> Inl ValueError
         | Some ch \<Rightarrow> set_content unichr_int16 name ds (AList.update name ch icons))
      else set_content unichr_int16 name ds icons)"

text \<open>The loop over the matches of \<^verbatim>\<open>is_icon.finditer(selector)\<close>.\<close>

fun set_names ::
  "(string \<Rightarrow> 'g option) \<Rightarrow> string list \<Rightarrow> (string \<times> string) list \<Rightarrow> (string \<times> 'g) list
     \<Rightarrow> error + (string \<times> 'g) list" where
  "set_names unichr_int16 [] ds icons = Inr icons"
| "set_names unichr_int16 (name # names) ds icons =
     (case set_content unichr_int16 name ds icons of
        Inl e \<Rightarrow> Inl e
      | Inr icons' \<Rightarrow> set_names unichr_int16 names ds icons')"

subsection \<open>\<^verbatim>\<open>load_css\<close>\<close>

text \<open>
  The loop over \<^verbatim>\<open>stylesheet.rules\<close>, with the two variables it updates: the dict \<^verbatim>\<open>icons\<close>
  (in insertion order) and \<^verbatim>\<open>common_prefix\<close>, which starts as \<^verbatim>\<open>None\<close>.
\<close>

fun load_rules ::
  "(string \<Rightarrow> 'g option) \<Rightarrow> rule list \<Rightarrow> (string \<times> 'g) list \<times> string option
     \<Rightarrow> error + ((string \<times> 'g) list \<times> string option)" where
  "load_rules unichr_int16 [] (icons, common_prefix) = Inr (icons, common_prefix)"
| "load_rules unichr_int16 (r # rs) (icons, common_prefix) =
     (if \<not> is_icon_match (selector r) then load_rules unichr_int16 rs (icons, common_prefix)
      else
        let common_prefix' =
              (case common_prefix of
                 None \<Rightarrow> drop 1 (selector r)
               | Some p \<Rightarrow> commonprefix p (drop 1 (selector r)))
        in (case set_names unichr_int16 (is_icon_finditer (selector r)) (declarations r) icons of
              Inl e \<Rightarrow> Inl e
            | Inr icons' \<Rightarrow> load_rules unichr_int16 rs (icons', Some common_prefix')))"

text \<open>
  The loop that removes the prefix: \<^verbatim>\<open>non_prefixed_icons[name[len(common_prefix):]] = icons[name]\<close>
  for the keys in the dict's order.
\<close>

fun remove_prefix :: "nat \<Rightarrow> (string \<times> 'g) list \<Rightarrow> (string \<times> 'g) list \<Rightarrow> (string \<times> 'g) list" where
  "remove_prefix n [] non_prefixed_icons = non_prefixed_icons"
| "remove_prefix n ((name, ch) # icons) non_prefixed_icons =
     remove_prefix n icons (AList.update (drop n name) ch non_prefixed_icons)"

text \<open>
  \<^verbatim>\<open>load_css\<close> returns the sorted icons and the common prefix; \<^verbatim>\<open>sorted(\<dots>, key=lambda t: t[0])\<close>
  is a stable sort on the keys.
\<close>

definition load_css ::
  "(string \<Rightarrow> 'g option) \<Rightarrow> bool \<Rightarrow> rule list \<Rightarrow> error + ((string \<times> 'g) list \<times> string)" where
  "load_css unichr_int16 keep_prefix stylesheet =
     (case load_rules unichr_int16 stylesheet ([], None) of
        Inl e \<Rightarrow> Inl e
      | Inr (icons, cp) \<Rightarrow>
          let common_prefix = (case cp of None \<Rightarrow> [] | Some p \<Rightarrow> p);
              icons' = (if \<not> keep_prefix \<and> 0 < length common_prefix
                        then remove_prefix (length common_prefix) icons []
                        else icons)
          in Inr (sort_key fst icons', common_prefix))"

text \<open>
  A reading of \<^verbatim>\<open>unichr(int(s, 16))\<close> for the examples: the code point of a non-empty string
  of hexadecimal digits, as long as it is a Unicode code point.
\<close>

definition hexdigit :: "char \<Rightarrow> nat option" where
  "hexdigit c =
     (let k = of_char c :: nat in
      if 48 \<le> k \<and> k \<le> 57 then Some (k - 48)
      else if 97 \<le> k \<and> k \<le> 102 then Some (k - 87)
      else if 65 \<le> k \<and> k \<le> 70 then Some (k - 55)
      else None)"

fun hexdigits :: "nat \<Rightarrow> string \<Rightarrow> nat option" where
  "hexdigits acc [] = Some acc"
| "hexdigits acc (c # cs) =
     (case hexdigit c of None \<Rightarrow> None | Some d \<Rightarrow> hexdigits (16 * acc + d) cs)"

definition hex_codepoint :: "string \<Rightarrow> nat option" where
  "hex_codepoint s =
     (if s = [] then None
      else (case hexdigits 0 s of
              None \<Rightarrow> None
            | Some n \<Rightarrow> if n < 1114112 then Some n else None))"

subsection \<open>The object, the libraries and the file system\<close>

text \<open>
  The fields of an \<^verbatim>\<open>IconFont\<close> that the methods read: \<^verbatim>\<open>css_icons\<close> is the sorted table of
  \<^verbatim>\<open>load_css\<close>, from icon name to glyph.
\<close>

record 'g icon_font =
  ttf_file :: string
  keep_prefix :: bool
  css_icons :: "(string \<times> 'g) list"
  common_prefix :: string

text \<open>
  \<^verbatim>\<open>__init__\<close>, lines 20 to 24, on the rules of the parsed stylesheet: an exception of
  \<^verbatim>\<open>load_css\<close> leaves no object.
\<close>

definition IconFont_init ::
  "(string \<Rightarrow> 'g option) \<Rightarrow> rule list \<Rightarrow> string \<Rightarrow> bool \<Rightarrow> error + 'g icon_font" where
  "IconFont_init unichr_int16 stylesheet ttf keep =
     (case load_css unichr_int16 keep stylesheet of
        Inl e \<Rightarrow> Inl e
      | Inr (icons, prefix) \<Rightarrow>
          Inr \<lparr>ttf_file = ttf, keep_prefix = keep, css_icons = icons, common_prefix = prefix\<rparr>)"

text \<open>\<^verbatim>\<open>scale\<close> is the string \<^verbatim>\<open>'auto'\<close> or a number; a float is the rational it denotes.\<close>

datatype scale = Auto | Fraction rat

text \<open>
  An image is its rows of pixels. \<^verbatim>\<open>Image.new(mode, (w, h), colour)\<close> raises \<^verbatim>\<open>ValueError\<close> for
  a negative width or height. \<^verbatim>\<open>getbbox\<close> is the bounding box \<open>(left, upper, right, lower)\<close> of
  the pixels that are not zero, \<^verbatim>\<open>None\<close> when there is none.
\<close>

type_synonym 'p image = "'p list list"
type_synonym rgba = "nat \<times> nat \<times> nat \<times> nat"
type_synonym box = "int \<times> int \<times> int \<times> int"

definition Image_new :: "int \<Rightarrow> int \<Rightarrow> 'p \<Rightarrow> error + 'p image" where
  "Image_new w h colour =
     (if w < 0 \<or> h < 0 then Inl ValueError
      else Inr (replicate (nat h) (replicate (nat w) colour)))"

definition getbbox :: "rgba image \<Rightarrow> box option" where
  "getbbox im =
     (let ys = filter (\<lambda>y. \<exists>p \<in> set (im ! y). p \<noteq> (0, 0, 0, 0)) [0..<length im];
          xs = concat (map (\<lambda>row. filter (\<lambda>x. row ! x \<noteq> (0, 0, 0, 0)) [0..<length row]) im)
      in if ys = [] then None
         else Some (int (Min (set xs)), int (hd ys), int (Max (set xs)) + 1, int (last ys) + 1))"

text \<open>
  What the interpreter and the libraries contribute and the source does not decide:
  \<open>fround\<close> rounds the exact result of a float operation to the float that represents it;
  \<open>truetype\<close> is \<^verbatim>\<open>ImageFont.truetype(file, size)\<close>, which may raise;
  \<open>textsize\<close> is \<^verbatim>\<open>draw.textsize(glyph, font=font)\<close>;
  \<open>getrgb\<close> reads a colour name or hex value (\<open>None\<close>: \<^verbatim>\<open>ValueError\<close>);
  \<open>draw_text\<close>, \<open>putalpha\<close>, \<open>crop\<close>, \<open>paste\<close> and \<open>resize\<close> are the drawing operations of
  the same names.
\<close>

record ('g, 'f) platform =
  fround :: "rat \<Rightarrow> rat"
  truetype :: "string \<Rightarrow> int \<Rightarrow> error + 'f"
  textsize :: "'g \<Rightarrow> 'f \<Rightarrow> int \<times> int"
  getrgb :: "string \<Rightarrow> rgba option"
  draw_text :: "nat image \<Rightarrow> rat \<times> rat \<Rightarrow> 'g \<Rightarrow> 'f \<Rightarrow> nat \<Rightarrow> nat image"
  putalpha :: "rgba image \<Rightarrow> nat image \<Rightarrow> rgba image"
  crop :: "rgba image \<Rightarrow> box \<Rightarrow> rgba image"
  paste :: "rgba image \<Rightarrow> rgba image \<Rightarrow> int \<times> int \<Rightarrow> rgba image"
  resize :: "rgba image \<Rightarrow> int \<times> int \<Rightarrow> rgba image"

text \<open>
  The world a call runs in: the directories that exist, the files written by \<^verbatim>\<open>save\<close>
  (latest first) and, to observe the rendering, the arguments of every call of
  \<^verbatim>\<open>ImageFont.truetype\<close> so far, in order.
\<close>

record world =
  dirs :: "string list"
  files :: "(string \<times> rgba image) list"
  fonts_loaded :: "(string \<times> int) list"

text \<open>
  A method is a function of the world to its result, an error or a value, and the new
  world; \<open>None\<close> is a call that never returns.
\<close>

type_synonym 'a run = "world \<Rightarrow> ((error + 'a) \<times> world) option"

definition ret :: "'a \<Rightarrow> 'a run" where
  "ret a w = Some (Inr a, w)"

definition raise :: "error \<Rightarrow> 'a run" where
  "raise e w = Some (Inl e, w)"

definition of_result :: "error + 'a \<Rightarrow> 'a run" where
  "of_result r w = Some (r, w)"

definition seq :: "'a run \<Rightarrow> ('a \<Rightarrow> 'b run) \<Rightarrow> 'b run" where
  "seq m f w =
     (case m w of
        None \<Rightarrow> None
      | Some (Inl e, w') \<Rightarrow> Some (Inl e, w')
      | Some (Inr a, w') \<Rightarrow> f a w')"

text \<open>\<^verbatim>\<open>int(x)\<close> of a float truncates towards zero.\<close>

definition py_int :: "rat \<Rightarrow> int" where
  "py_int x = (if 0 \<le> x then \<lfloor>x\<rfloor> else \<lceil>x\<rceil>)"

text \<open>\<^verbatim>\<open>d[k]\<close> on a dict raises \<^verbatim>\<open>KeyError\<close> for a missing key.\<close>

definition getitem :: "(string \<times> 'g) list \<Rightarrow> string \<Rightarrow> error + 'g" where
  "getitem d k = (case map_of d k of None \<Rightarrow> Inl KeyError | Some v \<Rightarrow> Inr v)"

text \<open>A name that no scope binds: reading it raises \<^verbatim>\<open>NameError\<close>.\<close>

definition unbound_name :: "string \<Rightarrow> error + 'a" where
  "unbound_name x = Inl NameError"

definition ImageFont_truetype :: "('g, 'f) platform \<Rightarrow> string \<Rightarrow> int \<Rightarrow> 'f run" where
  "ImageFont_truetype lib file px w =
     Some (truetype lib file px, w\<lparr>fonts_loaded := fonts_loaded w @ [(file, px)]\<rparr>)"

subsection \<open>\<^verbatim>\<open>scale_font\<close>\<close>

text \<open>
  In what follows \<open>sz\<close> is the parameter \<^verbatim>\<open>size\<close> of the source.
  The \<^verbatim>\<open>while True\<close> loop of lines 111 to 125, with its variables \<^verbatim>\<open>font\<close>, \<^verbatim>\<open>iteration\<close> and
  \<^verbatim>\<open>factor\<close>; \<^verbatim>\<open>self.css_icons[icon]\<close> is the glyph the lookup of line 105 found.
  \<^verbatim>\<open>size * size/dim * factor\<close> is Python 3's true division, then a float product, and the
  literal \<^verbatim>\<open>0.99\<close> is the float nearest to it. The loop has two exits: the \<^verbatim>\<open>break\<close> and an
  exception of the division or of \<^verbatim>\<open>ImageFont.truetype\<close>.
\<close>

partial_function (option) scale_loop ::
  "('g, 'f) platform \<Rightarrow> 'g icon_font \<Rightarrow> 'g \<Rightarrow> int \<Rightarrow> 'f \<Rightarrow> nat \<Rightarrow> rat \<Rightarrow> world
     \<Rightarrow> ((error + 'f \<times> int \<times> int) \<times> world) option" where
  "scale_loop lib self glyph sz font iteration factor w =
     (let (width, height) = textsize lib glyph font;
          dim = max width height
      in if dim > sz then
           (if dim = 0 then Some (Inl ZeroDivisionError, w)
            else
              (case ImageFont_truetype lib (ttf_file self)
                      (py_int (fround lib (fround lib (of_int (sz * sz) / of_int dim) * factor))) w of
                 None \<Rightarrow> None
               | Some (Inl e, w') \<Rightarrow> Some (Inl e, w')
               | Some (Inr font', w') \<Rightarrow>
                   scale_loop lib self glyph sz font' (iteration + 1)
                     (if (iteration + 1) mod 2 = 0 then fround lib (factor * fround lib (99 / 100))
                      else factor) w'))
         else Some (Inr (font, width, height), w))"

text \<open>
  \<^verbatim>\<open>scale_font(ttf, icon, size, scale)\<close>, lines 96 to 128 (line 95 is a line of the docstring
  left outside it). The image of line 101 is never drawn on: \<^verbatim>\<open>draw.textsize\<close> only measures.
\<close>

definition scale_font ::
  "('g, 'f) platform \<Rightarrow> 'g icon_font \<Rightarrow> string \<Rightarrow> string \<Rightarrow> int \<Rightarrow> scale
     \<Rightarrow> ('f \<times> int \<times> int \<times> box option) run" where
  "scale_font lib self ttf icon sz scale =
     seq (of_result (Image_new sz sz (0, 0, 0, 0))) (\<lambda>img.
     seq (ImageFont_truetype lib ttf
            (case scale of
               Auto \<Rightarrow> sz * 1
             | Fraction scale_factor \<Rightarrow> py_int (fround lib (of_int sz * scale_factor)))) (\<lambda>font.
     seq (of_result (getitem (css_icons self) icon)) (\<lambda>glyph.
     seq (case scale of
            Auto \<Rightarrow> scale_loop lib self glyph sz font 0 1
          | Fraction scale_factor \<Rightarrow> ret (font, textsize lib glyph font))
       (\<lambda>(font, width, height).
     ret (font, width, height, getbbox img)))))"

subsection \<open>The export methods\<close>

text \<open>\<^verbatim>\<open>os.path.exists\<close>, \<^verbatim>\<open>os.makedirs\<close>, \<^verbatim>\<open>os.path.join\<close> and \<^verbatim>\<open>Image.save\<close>.\<close>

definition path_exists :: "world \<Rightarrow> string \<Rightarrow> bool" where
  "path_exists w p = (p \<in> set (dirs w) \<or> p \<in> fst ` set (files w))"

definition makedirs :: "string \<Rightarrow> unit run" where
  "makedirs p w = Some (Inr (), w\<lparr>dirs := p # dirs w\<rparr>)"

definition path_join :: "string \<Rightarrow> string \<Rightarrow> string" where
  "path_join a b =
     (if take 1 b = ''/'' then b
      else if a = [] \<or> last a = CHR ''/'' then a @ b
      else a @ ''/'' @ b)"

definition save :: "rgba image \<Rightarrow> string \<Rightarrow> unit run" where
  "save im p w = Some (Inr (), w\<lparr>files := (p, im) # files w\<rparr>)"

text \<open>
  The tail the two export methods share, from the output image to the saved file: the resize
  when \<^verbatim>\<open>org_size != size\<close>, the export directory, the default filename (\<^verbatim>\<open>not filename\<close> holds
  for \<^verbatim>\<open>None\<close> and for the empty string) and \<^verbatim>\<open>save\<close>.
\<close>

definition write_out ::
  "('g, 'f) platform \<Rightarrow> rgba image \<Rightarrow> int \<Rightarrow> int \<Rightarrow> string \<Rightarrow> string option \<Rightarrow> string
     \<Rightarrow> unit run" where
  "write_out lib out_image org_size sz icon filename export_dir =
     (let out_image = (if org_size \<noteq> sz then resize lib out_image (org_size, org_size)
                       else out_image)
      in seq (\<lambda>w. if \<not> path_exists w export_dir then makedirs export_dir w else ret () w) (\<lambda>_.
         let filename = (case filename of
                           None \<Rightarrow> icon @ ''.png''
                         | Some fn \<Rightarrow> if fn = [] then icon @ ''.png'' else fn)
         in save out_image (path_join export_dir filename)))"

text \<open>
  Lines 265 to 270 and their like at 195 to 200: the borders from \<^verbatim>\<open>bbox\<close>, where \<^verbatim>\<open>bbox[2]\<close>
  raises \<^verbatim>\<open>TypeError\<close> when \<^verbatim>\<open>bbox\<close> is \<^verbatim>\<open>None\<close>, and the paste into a new transparent image.
\<close>

definition paste_centered ::
  "('g, 'f) platform \<Rightarrow> int \<Rightarrow> box option \<Rightarrow> rgba image \<Rightarrow> rgba image run" where
  "paste_centered lib sz bbox icon_image =
     (case bbox of
        None \<Rightarrow> raise TypeError
      | Some (left, upper, right, lower) \<Rightarrow>
          let border_w = py_int (fround lib (of_int (sz - (right - left)) / 2));
              border_h = py_int (fround lib (of_int (sz - (lower - upper)) / 2))
          in seq (of_result (Image_new sz sz (0, 0, 0, 0))) (\<lambda>out_image.
             ret (paste lib out_image icon_image (border_w, border_h))))"

text \<open>
  \<^verbatim>\<open>export_icon_with_wrapper\<close>, lines 235 to 285. Lines 235 to 246 are \<open>wrapper_fonts\<close>: the
  two calls of \<^verbatim>\<open>scale_font\<close>. \<^verbatim>\<open>org_size\<close> of line 273 is bound nowhere in the method or
  the module.
\<close>

definition wrapper_fonts ::
  "('g, 'f) platform \<Rightarrow> 'g icon_font \<Rightarrow> string \<Rightarrow> int \<Rightarrow> string \<Rightarrow> scale
     \<Rightarrow> (('f \<times> int \<times> int \<times> box option) \<times> ('f \<times> int \<times> int \<times> box option)) run" where
  "wrapper_fonts lib self icon sz wrapper_icon scale =
     (let scale_factor = (case scale of Auto \<Rightarrow> 1 | Fraction f \<Rightarrow> f);
          full_scale = scale_factor;
          scale_factor = fround lib (scale_factor / 2)
      in seq (scale_font lib self (ttf_file self) icon sz (Fraction scale_factor)) (\<lambda>inner.
         seq (scale_font lib self (ttf_file self) wrapper_icon sz (Fraction full_scale)) (\<lambda>outer.
         ret (inner, outer))))"

definition export_icon_with_wrapper ::
  "('g, 'f) platform \<Rightarrow> 'g icon_font \<Rightarrow> string \<Rightarrow> int \<Rightarrow> string \<Rightarrow> string \<Rightarrow> scale
     \<Rightarrow> string option \<Rightarrow> string \<Rightarrow> unit run" where
  "export_icon_with_wrapper lib self icon sz wrapper_icon color scale filename export_dir =
     seq (wrapper_fonts lib self icon sz wrapper_icon scale)
       (\<lambda>((font, width, height, bbox), (font2, width2, height2, bbox2)).
     seq (of_result (Image_new sz sz 0)) (\<lambda>image_mask.
     seq (of_result (getitem (css_icons self) wrapper_icon)) (\<lambda>glyph2.
     let image_mask = draw_text lib image_mask
           (fround lib (of_int (sz - width2) / 2), fround lib (of_int (sz - height2) / 2))
           glyph2 font2 255
     in
     seq (of_result (getitem (css_icons self) icon)) (\<lambda>glyph.
     let image_mask = draw_text lib image_mask
           (fround lib (of_int (sz - width) / 2), fround lib (of_int (sz - height) / 2))
           glyph font 255
     in
     seq (of_result (case getrgb lib color of
                       None \<Rightarrow> Inl ValueError
                     | Some c \<Rightarrow> Image_new sz sz c)) (\<lambda>icon_image.
     let icon_image = putalpha lib icon_image image_mask;
         icon_image = (case bbox2 of None \<Rightarrow> icon_image | Some b \<Rightarrow> crop lib icon_image b)
     in
     seq (paste_centered lib sz bbox icon_image) (\<lambda>out_image.
     seq (of_result (unbound_name ''org_size'')) (\<lambda>org_size.
     write_out lib out_image org_size sz icon filename export_dir)))))))"

text \<open>
  \<^verbatim>\<open>export_icon_no_wrapper\<close>, lines 174 to 215. \<^verbatim>\<open>ttf\<close> of line 177 is bound nowhere in the
  method or the module; the arguments of a call are evaluated before the call.
\<close>

definition export_icon_no_wrapper ::
  "('g, 'f) platform \<Rightarrow> 'g icon_font \<Rightarrow> string \<Rightarrow> int \<Rightarrow> string \<Rightarrow> scale
     \<Rightarrow> string option \<Rightarrow> string \<Rightarrow> unit run" where
  "export_icon_no_wrapper lib self icon sz color scale filename export_dir =
     (let org_size = sz;
          sz = max 150 sz
      in
      seq (of_result (unbound_name ''ttf'')) (\<lambda>ttf.
      seq (scale_font lib self ttf icon sz scale) (\<lambda>(font, width, height, bbox).
      seq (of_result (Image_new sz sz 0)) (\<lambda>image_mask.
      seq (of_result (getitem (css_icons self) icon)) (\<lambda>glyph.
      let image_mask = draw_text lib image_mask
            (fround lib (of_int (sz - width) / 2), fround lib (of_int (sz - height) / 2))
            glyph font 255
      in
      seq (of_result (case getrgb lib color of
                        None \<Rightarrow> Inl ValueError
                      | Some c \<Rightarrow> Image_new sz sz c)) (\<lambda>icon_image.
      let icon_image = putalpha lib icon_image image_mask;
          icon_image = (case bbox of None \<Rightarrow> icon_image | Some b \<Rightarrow> crop lib icon_image b)
      in
      seq (paste_centered lib sz bbox icon_image) (\<lambda>out_image.
      write_out lib out_image org_size sz icon filename export_dir)))))))"

text \<open>
  \<^verbatim>\<open>export_icon\<close>, lines 148 to 155: both branches call \<^verbatim>\<open>export_icon_with_wrapper\<close>, whose
  parameter \<^verbatim>\<open>wrapper_icon\<close> has no default. \<open>call_export_icon_with_wrapper\<close> binds the
  arguments of such a call: one that passes no \<^verbatim>\<open>wrapper_icon\<close> raises \<^verbatim>\<open>TypeError\<close>
  before the body runs.
\<close>

definition call_export_icon_with_wrapper ::
  "('g, 'f) platform \<Rightarrow> 'g icon_font \<Rightarrow> string \<Rightarrow> int \<Rightarrow> string option \<Rightarrow> string \<Rightarrow> scale
     \<Rightarrow> string option \<Rightarrow> string \<Rightarrow> unit run" where
  "call_export_icon_with_wrapper lib self icon sz wrapper_icon color scale filename export_dir =
     (case wrapper_icon of
        None \<Rightarrow> raise TypeError
      | Some wrapper \<Rightarrow>
          export_icon_with_wrapper lib self icon sz wrapper color scale filename export_dir)"

definition export_icon ::
  "('g, 'f) platform \<Rightarrow> 'g icon_font \<Rightarrow> string \<Rightarrow> int \<Rightarrow> string \<Rightarrow> scale
     \<Rightarrow> string option \<Rightarrow> string \<Rightarrow> string \<Rightarrow> unit run" where
  "export_icon lib self icon sz color scale filename export_dir wrapper_icon =
     (if wrapper_icon = []
      then call_export_icon_with_wrapper lib self icon sz None color scale filename export_dir
      else call_export_icon_with_wrapper lib self icon sz (Some wrapper_icon) color scale
             filename export_dir)"

subsection \<open>Inputs for the examples\<close>

text \<open>
  A platform with exact float arithmetic whose fonts are their pixel sizes and whose glyphs
  measure one pixel more than the font size in each direction.
\<close>

definition example_platform :: "(nat, int) platform" where
  "example_platform =
     \<lparr>fround = (\<lambda>x. x),
      truetype = (\<lambda>file px. Inr px),
      textsize = (\<lambda>glyph px. (px + 1, px + 1)),
      getrgb = (\<lambda>c. Some (0, 0, 0, 255)),
      draw_text = (\<lambda>im pos glyph font fill. im),
      putalpha = (\<lambda>im mask. im),
      crop = (\<lambda>im b. im),
      paste = (\<lambda>im im2 pos. im),
      resize = (\<lambda>im s. im)\<rparr>"

text \<open>
  The same platform with a glyph twice as wide as its font size, and a font library that
  renders a pixel size below 1 at 1.
\<close>

definition wide_platform :: "(nat, int) platform" where
  "wide_platform = example_platform\<lparr>textsize := (\<lambda>glyph px. (2 * max 1 px, max 1 px))\<rparr>"

definition example_font :: "nat icon_font" where
  "example_font =
     \<lparr>ttf_file = ''icons.ttf'', keep_prefix = False,
      css_icons = [(''home'', 61697), (''user'', 61698)], common_prefix = ''icon-''\<rparr>"

definition empty_world :: world where
  "empty_world = \<lparr>dirs = [], files = [], fonts_loaded = []\<rparr>"

text \<open>The value \<^verbatim>\<open>"\f101"\<close> of a \<^verbatim>\<open>content\<close> declaration, with its quotes, and its like.\<close>

definition content_value :: "string \<Rightarrow> string" where
  "content_value hex = [CHR 0x22, CHR 0x5C] @ hex @ [CHR 0x22]"

definition icon_rule :: "string \<Rightarrow> string \<Rightarrow> rule" where
  "icon_rule name hex =
     \<lparr>selector = ''.'' @ name @ '':before'', declarations = [(''content'', content_value hex)]\<rparr>"

text \<open>
  The pixel sizes of a fixed-scale rendering of the two glyphs of \<^verbatim>\<open>export_icon_with_wrapper\<close>,
  the icon at half the scale and the wrapper at the full scale, where \<^verbatim>\<open>'auto'\<close> counts as
  the scale 1.0: \<^verbatim>\<open>int(size * (full_scale / 2.0))\<close> and \<^verbatim>\<open>int(size * full_scale)\<close>.
\<close>

definition wrapper_sizes :: "('g, 'f) platform \<Rightarrow> int \<Rightarrow> scale \<Rightarrow> int list" where
  "wrapper_sizes lib sz scale =
     (let full = (case scale of Auto \<Rightarrow> 1 | Fraction f \<Rightarrow> f)
      in [py_int (fround lib (of_int sz * fround lib (full / 2))),
          py_int (fround lib (of_int sz * full))])"

text \<open>Two stylesheets: the icons of the specification's scenario with the rules in reverse
  order, and two icons of which one starts with the common prefix twice.\<close>

definition two_rules :: "rule list" where
  "two_rules = [icon_rule ''icon-user'' ''f102'', icon_rule ''icon-home'' ''f101'']"

definition nested_prefix_rules :: "rule list" where
  "nested_prefix_rules = [icon_rule ''aab'' ''f101'', icon_rule ''ab'' ''f102'']"

section \<open>The properties\<close>

subsection \<open>\<^verbatim>\<open>export_icon\<close> without a wrapper icon\<close>

text \<open>
  C1. A call of \<^verbatim>\<open>export_icon\<close> with no wrapper icon should write one PNG file and return.
  In the source it calls \<^verbatim>\<open>export_icon_with_wrapper\<close> without the required argument
  \<^verbatim>\<open>wrapper_icon\<close>: every such call raises \<^verbatim>\<open>TypeError\<close> and leaves the world as it was,
  whatever the icon, the size and the other arguments.
\<close>

theorem export_icon_without_wrapper_raises:
  "export_icon lib self icon sz color scale filename export_dir [] w = Some (Inl TypeError, w)"
  by (simp add: export_icon_def call_export_icon_with_wrapper_def raise_def)

theorem export_icon_without_wrapper_raises_witness:
  "export_icon example_platform example_font ''home'' 150 ''black'' Auto None ''exported'' []
     empty_world = Some (Inl TypeError, empty_world)"
  using export_icon_without_wrapper_raises
    [of example_platform example_font "''home''" 150 "''black''" Auto None "''exported''"
       empty_world]
  by simp

subsection \<open>\<^verbatim>\<open>scale_font\<close> with a fixed scale\<close>

lemma getbbox_blank: "getbbox (replicate h (replicate n (0, 0, 0, 0))) = None"
  by (simp add: getbbox_def filter_empty_conv)

text \<open>
  With a number for \<^verbatim>\<open>scale\<close> the method is straight-line code: the image, one font, the
  lookup of the glyph and one measurement. The bounding box is that of the image of line
  101, on which nothing was drawn.
\<close>

lemma scale_font_Fraction:
  "scale_font lib self ttf icon sz (Fraction f) w =
     (if sz < 0 then Some (Inl ValueError, w)
      else let px = py_int (fround lib (of_int sz * f));
               w' = w\<lparr>fonts_loaded := fonts_loaded w @ [(ttf, px)]\<rparr>
           in case truetype lib ttf px of
                Inl e \<Rightarrow> Some (Inl e, w')
              | Inr font \<Rightarrow>
                  (case map_of (css_icons self) icon of
                     None \<Rightarrow> Some (Inl KeyError, w')
                   | Some g \<Rightarrow>
                       Some (Inr (font, fst (textsize lib g font), snd (textsize lib g font), None),
                             w')))"
  by (simp add: scale_font_def seq_def of_result_def Image_new_def ImageFont_truetype_def
      getitem_def ret_def getbbox_blank Let_def split: sum.splits option.splits prod.splits)

lemma py_int_nonneg: "0 \<le> x \<Longrightarrow> py_int x = \<lfloor>x\<rfloor>"
  by (simp add: py_int_def)

text \<open>
  C6. For a target size \<open>sz\<close> that is not negative and a fixed scale \<open>f\<close> whose float product
  with \<open>sz\<close> is not negative, \<^verbatim>\<open>scale_font\<close> returns (a value or an exception of the
  library), and the run calls \<^verbatim>\<open>ImageFont.truetype\<close> exactly once, with the pixel size
  \<open>\<lfloor>sz * f\<rfloor>\<close>; the font, width and height it returns are that font and its one measurement
  of the glyph. There is no further rendering.
\<close>

theorem scale_font_fixed_scale:
  assumes "0 \<le> sz" and "0 \<le> fround lib (of_int sz * f)"
  shows "\<exists>r. scale_font lib self ttf icon sz (Fraction f) w =
           Some (r, w\<lparr>fonts_loaded := fonts_loaded w @ [(ttf, \<lfloor>fround lib (of_int sz * f)\<rfloor>)]\<rparr>)
         \<and> (\<forall>font width height bbox. r = Inr (font, width, height, bbox) \<longrightarrow>
               truetype lib ttf \<lfloor>fround lib (of_int sz * f)\<rfloor> = Inr font
               \<and> (\<exists>glyph. map_of (css_icons self) icon = Some glyph
                     \<and> textsize lib glyph font = (width, height)))"
  using assms
  by (auto simp: scale_font_Fraction py_int_nonneg Let_def split: sum.splits option.splits)

theorem scale_font_fixed_scale_witness:
  "(0::int) \<le> 150 \<and> 0 \<le> fround example_platform (of_int 150 * (1 / 2))
   \<and> scale_font example_platform example_font ''icons.ttf'' ''home'' 150 (Fraction (1 / 2))
         empty_world
       = Some (Inr (75, 76, 76, None), empty_world\<lparr>fonts_loaded := [(''icons.ttf'', 75)]\<rparr>)"
proof -
  have h1: "(0::int) \<le> 150" by simp
  have h2: "0 \<le> fround example_platform (of_int 150 * (1 / 2))"
    by (simp add: example_platform_def)
  have fl: "\<lfloor>fround example_platform (of_int 150 * (1 / 2))\<rfloor> = 75"
    by (simp add: example_platform_def)
  from scale_font_fixed_scale [OF h1 h2, of example_font "''icons.ttf''" "''home''" empty_world]
  obtain r where r: "scale_font example_platform example_font ''icons.ttf'' ''home'' 150
       (Fraction (1 / 2)) empty_world
         = Some (r, empty_world\<lparr>fonts_loaded := fonts_loaded empty_world @ [(''icons.ttf'', 75)]\<rparr>)"
    unfolding fl by blast
  have "scale_font example_platform example_font ''icons.ttf'' ''home'' 150
       (Fraction (1 / 2)) empty_world
         = Some (Inr (75, 76, 76, None), empty_world\<lparr>fonts_loaded := [(''icons.ttf'', 75)]\<rparr>)"
    by (simp add: scale_font_Fraction example_platform_def example_font_def empty_world_def
        py_int_def)
  with h1 h2 r show ?thesis by simp
qed

subsection \<open>\<^verbatim>\<open>scale_font\<close> with \<^verbatim>\<open>scale='auto'\<close>\<close>






subsection \<open>The loop can run for ever\<close>

text \<open>
  When no font measures the glyph within \<open>sz\<close> and the font library never raises, no run
  of the loop returns: each iteration loads another font and goes on.
\<close>

lemma scale_loop_never_fits:
  assumes run: "scale_loop lib self g sz font it fac w = Some y"
    and big: "\<forall>font. sz < max (fst (textsize lib g font)) (snd (textsize lib g font))"
    and ok: "\<forall>px. \<exists>font. truetype lib (ttf_file self) px = Inr font"
    and sz: "0 \<le> sz"
  shows False
  using run big ok sz
proof (induction rule: scale_loop.raw_induct[rotated 1, consumes 1])
  case (1 scale_loop' lib self g sz font it fac w y)
  obtain width height where wh: "textsize lib g font = (width, height)"
    by (cases "textsize lib g font")
  with "1.prems"(1) have gt: "sz < max width height" by (metis fst_conv snd_conv)
  with "1.prems"(3) have nz: "max width height \<noteq> 0" by linarith
  let ?px = "py_int (fround lib (fround lib (rat_of_int (sz * sz)
      / rat_of_int (max width height)) * fac))"
  from "1.prems"(2) obtain font' where f': "truetype lib (ttf_file self) ?px = Inr font'"
    by blast
  from "1.hyps" wh gt nz f'
  have "\<exists>it' fac' w'. scale_loop' lib self g sz font' it' fac' w' = Some y"
    by (auto simp: ImageFont_truetype_def split: if_splits)
  then show ?case using "1.IH" "1.prems" by blast
qed

lemma wide_never_fits:
  "\<forall>font. 1 < max (fst (textsize wide_platform g font)) (snd (textsize wide_platform g font))"
  by (auto simp: wide_platform_def example_platform_def max_def)

lemma wide_truetype: "truetype wide_platform file px = Inr px"
  by (simp add: wide_platform_def example_platform_def)

text \<open>
  C8. The loop of \<^verbatim>\<open>scale_font\<close> should end on every input, and the docstring of the method
  says that the decrementing factor protects it from an infinite loop (lines 92 and 93).
  The source has neither an iteration cap nor a failure of its own, and the factor does not
  protect it: for an icon of the table whose glyph measures larger than \<open>sz\<close> with every
  font, on a font library that never raises, the call with \<^verbatim>\<open>scale='auto'\<close> never returns.
\<close>

theorem scale_font_auto_no_cap:
  assumes glyph: "map_of (css_icons self) icon = Some g"
    and big: "\<forall>font. sz < max (fst (textsize lib g font)) (snd (textsize lib g font))"
    and ok: "\<forall>px. \<exists>font. truetype lib (ttf_file self) px = Inr font"
    and first: "truetype lib ttf sz = Inr font0"
    and sz: "0 \<le> sz"
  shows "scale_font lib self ttf icon sz Auto w = None"
proof -
  have "scale_loop lib self g sz font0 0 1 (w\<lparr>fonts_loaded := fonts_loaded w @ [(ttf, sz)]\<rparr>)
          = None"
    using scale_loop_never_fits [OF _ big ok sz] by (meson not_Some_eq)
  with glyph first sz show ?thesis
    by (simp add: scale_font_def seq_def of_result_def Image_new_def ImageFont_truetype_def
        getitem_def)
qed

theorem scale_font_auto_no_cap_witness:
  "map_of (css_icons example_font) ''user'' = Some 61698
   \<and> (\<forall>font. 1 < max (fst (textsize wide_platform (61698::nat) font))
                      (snd (textsize wide_platform (61698::nat) font)))
   \<and> (\<forall>px. \<exists>font. truetype wide_platform (ttf_file example_font) px = Inr font)
   \<and> truetype wide_platform ''icons.ttf'' 1 = Inr 1 \<and> (0::int) \<le> 1
   \<and> scale_font wide_platform example_font ''icons.ttf'' ''user'' 1 Auto empty_world = None"
proof -
  have g: "map_of (css_icons example_font) ''user'' = Some 61698"
    by (simp add: example_font_def)
  have ok: "\<forall>px. \<exists>font. truetype wide_platform (ttf_file example_font) px = Inr font"
    by (simp add: wide_truetype)
  have first: "truetype wide_platform ''icons.ttf'' 1 = Inr 1" by (rule wide_truetype)
  have sz: "(0::int) \<le> 1" by simp
  from scale_font_auto_no_cap [OF g wide_never_fits ok first sz] g wide_never_fits ok first
  show ?thesis by simp
qed

text \<open>
  The same for the icon \<^verbatim>\<open>home\<close> at size 1 on the platform with the wide glyph: the call
  never returns, neither with a value nor with a failure.
\<close>

theorem scale_font_auto_loops_forever:
  "scale_font wide_platform example_font ''icons.ttf'' ''home'' 1 Auto empty_world = None"
proof -
  have "scale_loop wide_platform example_font (61697::nat) 1 1 0 1
          (empty_world\<lparr>fonts_loaded := fonts_loaded empty_world @ [(''icons.ttf'', 1)]\<rparr>) = None"
    using scale_loop_never_fits [OF _ wide_never_fits, of example_font 61697]
    by (meson not_Some_eq wide_truetype zero_le_one)
  then show ?thesis
    by (simp add: scale_font_def seq_def of_result_def Image_new_def ImageFont_truetype_def
        getitem_def example_font_def wide_truetype)
qed

subsection \<open>\<^verbatim>\<open>export_icon_with_wrapper\<close>\<close>

text \<open>
  A call of \<^verbatim>\<open>scale_font\<close> with a number for \<^verbatim>\<open>scale\<close> returns, loads at most one font, and
  when it returns a value the bounding box is \<^verbatim>\<open>None\<close>.
\<close>

lemma scale_font_Fraction_steps:
  "\<exists>r L. scale_font lib self ttf icon sz (Fraction f) w
             = Some (r, w\<lparr>fonts_loaded := fonts_loaded w @ L\<rparr>)
         \<and> (L = [] \<or> L = [(ttf, py_int (fround lib (of_int sz * f)))])
         \<and> (\<forall>font width height bbox. r = Inr (font, width, height, bbox) \<longrightarrow>
               bbox = None \<and> 0 \<le> sz \<and> map_of (css_icons self) icon \<noteq> None
               \<and> L = [(ttf, py_int (fround lib (of_int sz * f)))])"
proof (cases "sz < 0")
  case True
  then have "scale_font lib self ttf icon sz (Fraction f) w
               = Some (Inl ValueError, w\<lparr>fonts_loaded := fonts_loaded w @ []\<rparr>)"
    by (simp add: scale_font_Fraction)
  then show ?thesis by blast
next
  case False
  let ?px = "py_int (fround lib (of_int sz * f))"
  let ?r = "case truetype lib ttf ?px of
              Inl e \<Rightarrow> Inl e
            | Inr font \<Rightarrow>
                (case map_of (css_icons self) icon of
                   None \<Rightarrow> Inl KeyError
                 | Some g \<Rightarrow>
                     Inr (font, fst (textsize lib g font), snd (textsize lib g font), None))"
  have "scale_font lib self ttf icon sz (Fraction f) w
          = Some (?r, w\<lparr>fonts_loaded := fonts_loaded w @ [(ttf, ?px)]\<rparr>)"
    using False by (simp add: scale_font_Fraction Let_def split: sum.splits option.splits)
  moreover have "\<forall>font width height bbox. ?r = Inr (font, width, height, bbox) \<longrightarrow>
               bbox = None \<and> 0 \<le> sz \<and> map_of (css_icons self) icon \<noteq> None"
    using False by (auto split: sum.splits option.splits)
  ultimately show ?thesis by blast
qed

text \<open>The two calls of lines 243 to 246 load at most the two fonts of \<open>wrapper_sizes\<close>.\<close>

lemma wrapper_fonts_steps:
  "\<exists>r n. wrapper_fonts lib self icon sz wrapper_icon scale w
             = Some (r, w\<lparr>fonts_loaded := fonts_loaded w
                   @ map (Pair (ttf_file self)) (take n (wrapper_sizes lib sz scale))\<rparr>)
         \<and> (\<forall>font width height bbox font2 width2 height2 bbox2.
               r = Inr ((font, width, height, bbox), (font2, width2, height2, bbox2)) \<longrightarrow>
               bbox = None \<and> bbox2 = None \<and> 0 \<le> sz
               \<and> map_of (css_icons self) icon \<noteq> None
               \<and> map_of (css_icons self) wrapper_icon \<noteq> None)"
proof -
  let ?full = "case scale of Auto \<Rightarrow> 1 | Fraction f \<Rightarrow> f"
  let ?p1 = "py_int (fround lib (of_int sz * fround lib (?full / 2)))"
  let ?p2 = "py_int (fround lib (of_int sz * ?full))"
  let ?t = "ttf_file self"
  have ws: "wrapper_sizes lib sz scale = [?p1, ?p2]"
    by (simp add: wrapper_sizes_def Let_def)
  obtain r1 L1 where
    s1: "scale_font lib self ?t icon sz (Fraction (fround lib (?full / 2))) w
           = Some (r1, w\<lparr>fonts_loaded := fonts_loaded w @ L1\<rparr>)"
    and L1: "L1 = [] \<or> L1 = [(?t, ?p1)]"
    and r1: "\<forall>font width height bbox. r1 = Inr (font, width, height, bbox) \<longrightarrow>
               bbox = None \<and> 0 \<le> sz \<and> map_of (css_icons self) icon \<noteq> None
               \<and> L1 = [(?t, ?p1)]"
    using scale_font_Fraction_steps [of lib self ?t icon sz "fround lib (?full / 2)" w]
    by blast
  show ?thesis
  proof (cases r1)
    case (Inl e)
    from L1 have "\<exists>n. L1 = map (Pair ?t) (take n [?p1, ?p2])"
    proof
      assume "L1 = []" then have "L1 = map (Pair ?t) (take 0 [?p1, ?p2])" by simp
      then show ?thesis ..
    next
      assume "L1 = [(?t, ?p1)]" then have "L1 = map (Pair ?t) (take 1 [?p1, ?p2])" by simp
      then show ?thesis ..
    qed
    then obtain n where "L1 = map (Pair ?t) (take n [?p1, ?p2])" ..
    with s1 Inl show ?thesis
      by (auto simp: wrapper_fonts_def seq_def ws Let_def)
  next
    case (Inr a)
    obtain font width height bbox where a: "a = (font, width, height, bbox)"
      by (cases a) auto
    have L1': "L1 = [(?t, ?p1)]"
      using r1 Inr a by blast
    let ?w1 = "w\<lparr>fonts_loaded := fonts_loaded w @ L1\<rparr>"
    obtain r2 L2 where
      s2: "scale_font lib self ?t wrapper_icon sz (Fraction ?full) ?w1
             = Some (r2, ?w1\<lparr>fonts_loaded := fonts_loaded ?w1 @ L2\<rparr>)"
      and L2: "L2 = [] \<or> L2 = [(?t, ?p2)]"
      and r2: "\<forall>font width height bbox. r2 = Inr (font, width, height, bbox) \<longrightarrow>
               bbox = None \<and> 0 \<le> sz \<and> map_of (css_icons self) wrapper_icon \<noteq> None"
      using scale_font_Fraction_steps [of lib self ?t wrapper_icon sz ?full ?w1]
      by blast
    from L2 have "\<exists>n. L1 @ L2 = map (Pair ?t) (take n [?p1, ?p2])"
    proof
      assume "L2 = []"
      with L1' have "L1 @ L2 = map (Pair ?t) (take 1 [?p1, ?p2])" by simp
      then show ?thesis ..
    next
      assume "L2 = [(?t, ?p2)]"
      with L1' have "L1 @ L2 = map (Pair ?t) (take 2 [?p1, ?p2])" by simp
      then show ?thesis ..
    qed
    then obtain n where n: "L1 @ L2 = map (Pair ?t) (take n [?p1, ?p2])" ..
    have "wrapper_fonts lib self icon sz wrapper_icon scale w
            = Some ((case r2 of Inl e \<Rightarrow> Inl e | Inr b \<Rightarrow> Inr (a, b)),
                    w\<lparr>fonts_loaded := fonts_loaded w @ (L1 @ L2)\<rparr>)"
      using s1 s2 Inr
      by (auto simp: wrapper_fonts_def seq_def ret_def Let_def split: sum.splits)
    with n r1 r2 Inr a show ?thesis
      by (auto simp: ws split: sum.splits)
  qed
qed

text \<open>
  With \<^verbatim>\<open>bbox\<close> being \<^verbatim>\<open>None\<close>, line 265 raises \<^verbatim>\<open>TypeError\<close>: every run of the method ends in
  an exception, at line 265 at the latest.
\<close>

lemma export_icon_with_wrapper_steps:
  "\<exists>e n. export_icon_with_wrapper lib self icon sz wrapper_icon color scale filename export_dir w
            = Some (Inl e, w\<lparr>fonts_loaded := fonts_loaded w
                  @ map (Pair (ttf_file self)) (take n (wrapper_sizes lib sz scale))\<rparr>)"
proof -
  obtain r n where
    wf: "wrapper_fonts lib self icon sz wrapper_icon scale w
           = Some (r, w\<lparr>fonts_loaded := fonts_loaded w
                 @ map (Pair (ttf_file self)) (take n (wrapper_sizes lib sz scale))\<rparr>)"
    and r: "\<forall>font width height bbox font2 width2 height2 bbox2.
               r = Inr ((font, width, height, bbox), (font2, width2, height2, bbox2)) \<longrightarrow>
               bbox = None \<and> bbox2 = None \<and> 0 \<le> sz
               \<and> map_of (css_icons self) icon \<noteq> None
               \<and> map_of (css_icons self) wrapper_icon \<noteq> None"
    using wrapper_fonts_steps [of lib self icon sz wrapper_icon scale w] by blast
  show ?thesis
  proof (cases r)
    case (Inl e)
    with wf show ?thesis
      by (auto simp: export_icon_with_wrapper_def seq_def)
  next
    case (Inr p)
    obtain font width height bbox font2 width2 height2 bbox2
      where p: "p = ((font, width, height, bbox), (font2, width2, height2, bbox2))"
      by (cases p) auto
    with r Inr have "bbox = None" by blast
    with wf Inr p show ?thesis
      by (auto simp: export_icon_with_wrapper_def seq_def of_result_def paste_centered_def
          raise_def Let_def split: sum.splits option.splits)
  qed
qed

text \<open>
  C2. \<^verbatim>\<open>export_icon_with_wrapper\<close> should paste, resize when the sizes differ, make the
  export directory, choose the filename and write one PNG file. In the source no call of it
  gets that far: for all arguments the call ends in an exception, and it leaves the files
  and the directories as they were.
\<close>

theorem export_icon_with_wrapper_never_saves:
  "\<exists>e w'. export_icon_with_wrapper lib self icon sz wrapper_icon color scale filename
             export_dir w = Some (Inl e, w')
          \<and> files w' = files w \<and> dirs w' = dirs w"
  using export_icon_with_wrapper_steps
    [of lib self icon sz wrapper_icon color scale filename export_dir w]
  by auto

theorem export_icon_with_wrapper_never_saves_witness:
  "\<exists>e w'. export_icon_with_wrapper example_platform example_font ''home'' 150 ''user'' ''black''
             Auto None ''exported'' empty_world = Some (Inl e, w')
          \<and> files w' = [] \<and> dirs w' = []"
  using export_icon_with_wrapper_never_saves
    [of example_platform example_font "''home''" 150 "''user''" "''black''" Auto None
       "''exported''" empty_world]
  by (simp add: empty_world_def)

text \<open>
  The run for the icon \<^verbatim>\<open>home\<close> inside the wrapper \<^verbatim>\<open>user\<close> at size 150: two fonts are
  loaded, then \<^verbatim>\<open>bbox[2]\<close> raises.
\<close>

lemma export_icon_with_wrapper_example:
  "export_icon_with_wrapper example_platform example_font ''home'' 150 ''user'' ''black'' Auto
     None ''exported'' empty_world
   = Some (Inl TypeError,
           empty_world\<lparr>fonts_loaded := [(''icons.ttf'', 75), (''icons.ttf'', 150)]\<rparr>)"
  by (simp add: export_icon_with_wrapper_def wrapper_fonts_def scale_font_Fraction seq_def
      ret_def of_result_def raise_def paste_centered_def Image_new_def getitem_def
      example_platform_def example_font_def empty_world_def py_int_def)

text \<open>
  At size 10 with \<^verbatim>\<open>scale='auto'\<close> the wrapper is rendered once, at pixel size 10, and
  measures 11 by 11.
\<close>

lemma wrapper_fonts_example:
  "wrapper_fonts example_platform example_font ''home'' 10 ''user'' Auto empty_world
   = Some (Inr ((5, 6, 6, None), (10, 11, 11, None)),
           empty_world\<lparr>fonts_loaded := [(''icons.ttf'', 5), (''icons.ttf'', 10)]\<rparr>)"
  by (simp add: wrapper_fonts_def scale_font_Fraction seq_def ret_def
      example_platform_def example_font_def empty_world_def py_int_def)

subsection \<open>An icon name that is not in the table\<close>

text \<open>
  On the wrapper path the lookup of line 105 raises \<^verbatim>\<open>KeyError\<close>, once the image and the
  font of lines 101 and 104 are there.
\<close>

lemma wrapper_fonts_unknown:
  assumes unknown: "map_of (css_icons self) icon = None
      \<or> map_of (css_icons self) wrapper_icon = None"
    and sz: "0 \<le> sz"
    and ok: "\<forall>px. \<exists>font. truetype lib (ttf_file self) px = Inr font"
  shows "\<exists>w'. wrapper_fonts lib self icon sz wrapper_icon scale w = Some (Inl KeyError, w')"
proof -
  let ?full = "case scale of Auto \<Rightarrow> 1 | Fraction f \<Rightarrow> f"
  let ?p1 = "py_int (fround lib (of_int sz * fround lib (?full / 2)))"
  let ?p2 = "py_int (fround lib (of_int sz * ?full))"
  from ok obtain font1 where f1: "truetype lib (ttf_file self) ?p1 = Inr font1" by blast
  from ok obtain font2 where f2: "truetype lib (ttf_file self) ?p2 = Inr font2" by blast
  show ?thesis
  proof (cases "map_of (css_icons self) icon")
    case None
    with sz f1 show ?thesis
      by (simp add: wrapper_fonts_def scale_font_Fraction seq_def Let_def)
  next
    case (Some g)
    with unknown have "map_of (css_icons self) wrapper_icon = None" by simp
    with Some sz f1 f2 show ?thesis
      by (simp add: wrapper_fonts_def scale_font_Fraction seq_def Let_def)
  qed
qed

lemma export_icon_no_wrapper_raises:
  "export_icon_no_wrapper lib self icon sz color scale filename export_dir w
     = Some (Inl NameError, w)"
  by (simp add: export_icon_no_wrapper_def seq_def of_result_def unbound_name_def Let_def)

text \<open>
  C9. A call whose icon (or wrapper icon) is not in the table should fail with the error
  of an unknown icon name, with no file written and no directory made. In the source the
  error depends on the method: \<^verbatim>\<open>export_icon\<close> without a wrapper raises \<^verbatim>\<open>TypeError\<close> (the
  missing argument of C1), \<^verbatim>\<open>export_icon_no_wrapper\<close> raises \<^verbatim>\<open>NameError\<close> (the unbound name
  \<^verbatim>\<open>ttf\<close>), and only \<^verbatim>\<open>export_icon_with_wrapper\<close> raises \<^verbatim>\<open>KeyError\<close>, when the size is
  not negative and the font library loads its fonts. In all three the files and the
  directories stay as they were.
\<close>

theorem export_unknown_icon:
  assumes unknown: "map_of (css_icons self) icon = None
      \<or> map_of (css_icons self) wrapper_icon = None"
  shows "export_icon lib self icon sz color scale filename export_dir [] w
           = Some (Inl TypeError, w)
       \<and> export_icon_no_wrapper lib self icon sz color scale filename export_dir w
           = Some (Inl NameError, w)
       \<and> (\<exists>e w'. export_icon_with_wrapper lib self icon sz wrapper_icon color scale filename
                    export_dir w = Some (Inl e, w')
                 \<and> files w' = files w \<and> dirs w' = dirs w
                 \<and> (0 \<le> sz \<and> (\<forall>px. \<exists>font. truetype lib (ttf_file self) px = Inr font)
                      \<longrightarrow> e = KeyError))"
proof -
  have a: "export_icon lib self icon sz color scale filename export_dir [] w
           = Some (Inl TypeError, w)"
    by (simp add: export_icon_def call_export_icon_with_wrapper_def raise_def)
  obtain e n where
    run: "export_icon_with_wrapper lib self icon sz wrapper_icon color scale filename
            export_dir w
          = Some (Inl e, w\<lparr>fonts_loaded := fonts_loaded w
                @ map (Pair (ttf_file self)) (take n (wrapper_sizes lib sz scale))\<rparr>)"
    using export_icon_with_wrapper_steps
      [of lib self icon sz wrapper_icon color scale filename export_dir w]
    by blast
  have "e = KeyError"
    if "0 \<le> sz" and "\<forall>px. \<exists>font. truetype lib (ttf_file self) px = Inr font"
  proof -
    from wrapper_fonts_unknown [OF unknown that, of scale w]
    obtain w' where "wrapper_fonts lib self icon sz wrapper_icon scale w
                       = Some (Inl KeyError, w')"
      by blast
    then have "export_icon_with_wrapper lib self icon sz wrapper_icon color scale filename
                 export_dir w = Some (Inl KeyError, w')"
      by (simp add: export_icon_with_wrapper_def seq_def)
    with run show ?thesis by simp
  qed
  with run have "\<exists>e w'. export_icon_with_wrapper lib self icon sz wrapper_icon color scale
                    filename export_dir w = Some (Inl e, w')
                 \<and> files w' = files w \<and> dirs w' = dirs w
                 \<and> (0 \<le> sz \<and> (\<forall>px. \<exists>font. truetype lib (ttf_file self) px = Inr font)
                      \<longrightarrow> e = KeyError)"
    by auto
  with a export_icon_no_wrapper_raises show ?thesis by blast
qed

theorem export_unknown_icon_witness:
  "(map_of (css_icons example_font) ''nope'' = None
      \<or> map_of (css_icons example_font) ''user'' = None)
   \<and> export_icon example_platform example_font ''nope'' 150 ''black'' Auto None ''exported'' []
        empty_world = Some (Inl TypeError, empty_world)
   \<and> export_icon_no_wrapper example_platform example_font ''nope'' 150 ''black'' Auto None
        ''exported'' empty_world = Some (Inl NameError, empty_world)"
proof -
  have h: "map_of (css_icons example_font) ''nope'' = None
      \<or> map_of (css_icons example_font) ''user'' = None"
    by (simp add: example_font_def)
  from export_unknown_icon [OF h, of example_platform 150 "''black''" Auto None "''exported''"
      empty_world] h
  show ?thesis by blast
qed

subsection \<open>The wrapper path never scales automatically\<close>

text \<open>Sequencing is associative, and a returned value is handed on as it is.\<close>

lemma seq_assoc: "seq (seq m f) g = seq m (\<lambda>a. seq (f a) g)"
  by (rule ext) (simp add: seq_def split: option.splits sum.splits prod.splits)

lemma seq_ret: "seq (ret a) f = f a"
  by (rule ext) (simp add: seq_def ret_def)

lemma seq_pair_rest:
  "\<exists>rest. seq (seq m1 (\<lambda>inner. seq m2 (\<lambda>outer. ret (inner, outer)))) k
           = seq m1 (\<lambda>inner. seq m2 (\<lambda>outer. rest inner outer))"
  by (rule exI [of _ "\<lambda>inner outer. k (inner, outer)"]) (simp add: seq_assoc seq_ret)

text \<open>
  C10. With \<open>full\<close> the number \<^verbatim>\<open>full_scale\<close> of line 240 (1.0 for \<^verbatim>\<open>scale='auto'\<close>) and \<open>half\<close>
  the float \<^verbatim>\<open>full_scale / 2.0\<close>:
  \<^item> every call of \<^verbatim>\<open>export_icon_with_wrapper\<close> is the call of \<^verbatim>\<open>scale_font\<close> for the icon with
    the number \<open>half\<close> for \<^verbatim>\<open>scale\<close>, then the call for the wrapper with the number \<open>full\<close>,
    then the rest of the method; \<^verbatim>\<open>scale_font\<close> never gets \<^verbatim>\<open>'auto'\<close>;
  \<^item> when the size is not negative, both names are in the table and the two fonts load,
    the run loads exactly these two fonts, of the pixel sizes \<^verbatim>\<open>int(size * half)\<close> and
    \<^verbatim>\<open>int(size * full)\<close>, and no other, whatever the glyphs measure: the loop of
    \<^verbatim>\<open>scale_font\<close> does not run, and the widths and heights are the one measurement at
    each of these sizes;
  \<^item> and these need not fit: at size 10 the call of \<^verbatim>\<open>scale_font\<close> that \<^verbatim>\<open>'auto'\<close> leads to,
    with the scale 1.0, measures the wrapper of the example at 11 by 11.
\<close>

theorem wrapper_path_fixed_scales:
  assumes full: "full = (case scale of Auto \<Rightarrow> 1 | Fraction f \<Rightarrow> f)"
    and half: "half = fround lib (full / 2)"
  shows "(\<exists>rest. export_icon_with_wrapper lib self icon sz wrapper_icon color scale filename
                  export_dir
                = seq (scale_font lib self (ttf_file self) icon sz (Fraction half)) (\<lambda>inner.
                  seq (scale_font lib self (ttf_file self) wrapper_icon sz (Fraction full))
                    (\<lambda>outer. rest inner outer)))
       \<and> (0 \<le> sz \<and> map_of (css_icons self) icon = Some glyph
            \<and> map_of (css_icons self) wrapper_icon = Some glyph2
            \<and> truetype lib (ttf_file self) (py_int (fround lib (of_int sz * half))) = Inr font
            \<and> truetype lib (ttf_file self) (py_int (fround lib (of_int sz * full))) = Inr font2
          \<longrightarrow> wrapper_fonts lib self icon sz wrapper_icon scale w
                = Some (Inr ((font, fst (textsize lib glyph font), snd (textsize lib glyph font),
                              None),
                             (font2, fst (textsize lib glyph2 font2),
                              snd (textsize lib glyph2 font2), None)),
                        w\<lparr>fonts_loaded := fonts_loaded w
                            @ [(ttf_file self, py_int (fround lib (of_int sz * half))),
                               (ttf_file self, py_int (fround lib (of_int sz * full)))]\<rparr>)
              \<and> export_icon_with_wrapper lib self icon sz wrapper_icon color scale filename
                  export_dir w
                = Some (Inl (case getrgb lib color of None \<Rightarrow> ValueError | Some c \<Rightarrow> TypeError),
                        w\<lparr>fonts_loaded := fonts_loaded w
                            @ [(ttf_file self, py_int (fround lib (of_int sz * half))),
                               (ttf_file self, py_int (fround lib (of_int sz * full)))]\<rparr>))
       \<and> scale_font example_platform example_font ''icons.ttf'' ''user'' 10 (Fraction 1)
            empty_world
          = Some (Inr (10, 11, 11, None), empty_world\<lparr>fonts_loaded := [(''icons.ttf'', 10)]\<rparr>)"
proof -
  have shape: "\<exists>rest. export_icon_with_wrapper lib self icon sz wrapper_icon color scale
                  filename export_dir
                = seq (scale_font lib self (ttf_file self) icon sz (Fraction half)) (\<lambda>inner.
                  seq (scale_font lib self (ttf_file self) wrapper_icon sz (Fraction full))
                    (\<lambda>outer. rest inner outer))"
    unfolding export_icon_with_wrapper_def wrapper_fonts_def Let_def full half
    by (rule seq_pair_rest)
  have run: "wrapper_fonts lib self icon sz wrapper_icon scale w
                = Some (Inr ((font, fst (textsize lib glyph font), snd (textsize lib glyph font),
                              None),
                             (font2, fst (textsize lib glyph2 font2),
                              snd (textsize lib glyph2 font2), None)),
                        w\<lparr>fonts_loaded := fonts_loaded w
                            @ [(ttf_file self, py_int (fround lib (of_int sz * half))),
                               (ttf_file self, py_int (fround lib (of_int sz * full)))]\<rparr>)
              \<and> export_icon_with_wrapper lib self icon sz wrapper_icon color scale filename
                  export_dir w
                = Some (Inl (case getrgb lib color of None \<Rightarrow> ValueError | Some c \<Rightarrow> TypeError),
                        w\<lparr>fonts_loaded := fonts_loaded w
                            @ [(ttf_file self, py_int (fround lib (of_int sz * half))),
                               (ttf_file self, py_int (fround lib (of_int sz * full)))]\<rparr>)"
    if sz: "0 \<le> sz" and g: "map_of (css_icons self) icon = Some glyph"
      and g2: "map_of (css_icons self) wrapper_icon = Some glyph2"
      and f1: "truetype lib (ttf_file self) (py_int (fround lib (of_int sz * half))) = Inr font"
      and f2: "truetype lib (ttf_file self) (py_int (fround lib (of_int sz * full))) = Inr font2"
  proof -
    have wf: "wrapper_fonts lib self icon sz wrapper_icon scale w
                = Some (Inr ((font, fst (textsize lib glyph font), snd (textsize lib glyph font),
                              None),
                             (font2, fst (textsize lib glyph2 font2),
                              snd (textsize lib glyph2 font2), None)),
                        w\<lparr>fonts_loaded := fonts_loaded w
                            @ [(ttf_file self, py_int (fround lib (of_int sz * half))),
                               (ttf_file self, py_int (fround lib (of_int sz * full)))]\<rparr>)"
      using sz g g2 f1 f2
      by (simp add: wrapper_fonts_def scale_font_Fraction seq_def ret_def Let_def
          full [symmetric] half [symmetric])
    then show ?thesis
      using sz g g2
      by (simp add: export_icon_with_wrapper_def seq_def of_result_def paste_centered_def
          raise_def getitem_def Image_new_def split: option.splits)
  qed
  have example: "scale_font example_platform example_font ''icons.ttf'' ''user'' 10 (Fraction 1)
            empty_world
          = Some (Inr (10, 11, 11, None), empty_world\<lparr>fonts_loaded := [(''icons.ttf'', 10)]\<rparr>)"
    by (simp add: scale_font_Fraction example_platform_def example_font_def empty_world_def
        py_int_def)
  from shape run example show ?thesis by blast
qed

theorem wrapper_path_fixed_scales_witness:
  "(1::rat) = (case Auto of Auto \<Rightarrow> 1 | Fraction f \<Rightarrow> f)
   \<and> (1 / 2 :: rat) = fround example_platform (1 / 2)
   \<and> (0::int) \<le> 10
   \<and> map_of (css_icons example_font) ''home'' = Some 61697
   \<and> map_of (css_icons example_font) ''user'' = Some 61698
   \<and> truetype example_platform (ttf_file example_font)
         (py_int (fround example_platform (of_int 10 * (1 / 2)))) = Inr 5
   \<and> truetype example_platform (ttf_file example_font)
         (py_int (fround example_platform (of_int 10 * 1))) = Inr 10
   \<and> wrapper_fonts example_platform example_font ''home'' 10 ''user'' Auto empty_world
       = Some (Inr ((5, 6, 6, None), (10, 11, 11, None)),
               empty_world\<lparr>fonts_loaded := [(''icons.ttf'', 5), (''icons.ttf'', 10)]\<rparr>)
   \<and> export_icon_with_wrapper example_platform example_font ''home'' 10 ''user'' ''black'' Auto
         None ''exported'' empty_world
       = Some (Inl TypeError,
               empty_world\<lparr>fonts_loaded := [(''icons.ttf'', 5), (''icons.ttf'', 10)]\<rparr>)
   \<and> (10::int) < max 11 11"
proof -
  have full: "(1::rat) = (case Auto of Auto \<Rightarrow> 1 | Fraction f \<Rightarrow> f)" by simp
  have half: "(1 / 2 :: rat) = fround example_platform (1 / 2)"
    by (simp add: example_platform_def)
  have g: "map_of (css_icons example_font) ''home'' = Some 61697"
    by (simp add: example_font_def)
  have g2: "map_of (css_icons example_font) ''user'' = Some 61698"
    by (simp add: example_font_def)
  have f1: "truetype example_platform (ttf_file example_font)
         (py_int (fround example_platform (of_int 10 * (1 / 2)))) = Inr 5"
    by (simp add: example_platform_def py_int_def)
  have f2: "truetype example_platform (ttf_file example_font)
         (py_int (fround example_platform (of_int 10 * 1))) = Inr 10"
    by (simp add: example_platform_def py_int_def)
  have five: "py_int (fround example_platform (of_int 10 * (1 / 2))) = 5"
    by (simp add: example_platform_def py_int_def)
  have ten: "py_int (fround example_platform (of_int 10 * 1)) = 10"
    by (simp add: example_platform_def py_int_def)
  from wrapper_path_fixed_scales [OF full half, of example_font "''home''" 10 "''user''"
      "''black''" None "''exported''" 61697 61698 5 10 empty_world]
    g g2 f1 f2
  have "wrapper_fonts example_platform example_font ''home'' 10 ''user'' Auto empty_world
       = Some (Inr ((5, 6, 6, None), (10, 11, 11, None)),
               empty_world\<lparr>fonts_loaded := [(''icons.ttf'', 5), (''icons.ttf'', 10)]\<rparr>)
   \<and> export_icon_with_wrapper example_platform example_font ''home'' 10 ''user'' ''black'' Auto
         None ''exported'' empty_world
       = Some (Inl TypeError,
               empty_world\<lparr>fonts_loaded := [(''icons.ttf'', 5), (''icons.ttf'', 10)]\<rparr>)"
    by (simp add: five ten example_platform_def example_font_def empty_world_def)
  with full half g g2 f1 f2 show ?thesis by simp
qed

subsection \<open>The icon table of \<^verbatim>\<open>load_css\<close>\<close>

text \<open>The dict \<^verbatim>\<open>icons\<close> never holds a key twice, in any of the loops.\<close>

lemma set_content_distinct:
  "distinct (map fst icons) \<Longrightarrow> set_content conv name ds icons = Inr icons'
     \<Longrightarrow> distinct (map fst icons')"
  by (induction conv name ds icons rule: set_content.induct)
     (auto simp: distinct_update split: if_splits option.splits)

lemma set_names_distinct:
  "distinct (map fst icons) \<Longrightarrow> set_names conv names ds icons = Inr icons'
     \<Longrightarrow> distinct (map fst icons')"
  by (induction names arbitrary: icons)
     (auto split: sum.splits dest: set_content_distinct)

lemma load_rules_distinct:
  "distinct (map fst icons) \<Longrightarrow> load_rules conv rs (icons, cp) = Inr (icons', cp')
     \<Longrightarrow> distinct (map fst icons')"
proof (induction rs arbitrary: icons cp)
  case Nil
  then show ?case by simp
next
  case (Cons r rs)
  show ?case
  proof (cases "is_icon_match (selector r)")
    case False
    with Cons show ?thesis by simp
  next
    case True
    with Cons.prems(2) obtain icons1 cp1 where
      s: "set_names conv (is_icon_finditer (selector r)) (declarations r) icons = Inr icons1"
      and l: "load_rules conv rs (icons1, cp1) = Inr (icons', cp')"
      by (auto simp: Let_def split: sum.splits)
    from set_names_distinct [OF Cons.prems(1) s] have "distinct (map fst icons1)" .
    from Cons.IH [OF this l] show ?thesis .
  qed
qed

lemma remove_prefix_distinct:
  "distinct (map fst acc) \<Longrightarrow> distinct (map fst (remove_prefix n icons acc))"
  by (induction n icons acc rule: remove_prefix.induct) (auto simp: distinct_update)

text \<open>Sorting on the keys keeps them distinct.\<close>

lemma distinct_map_insort_key:
  "distinct (map f (insort_key f x xs)) = (f x \<notin> f ` set xs \<and> distinct (map f xs))"
  by (induction xs) (auto simp: set_insort_key)

lemma distinct_map_sort_key: "distinct (map f (sort_key f xs)) = distinct (map f xs)"
  by (induction xs) (simp_all add: distinct_map_insort_key)

text \<open>
  C5. For every stylesheet, in whatever order its rules come, and for both values of
  \<^verbatim>\<open>keep_prefix\<close>, the keys of the table that \<^verbatim>\<open>load_css\<close> returns are in ascending
  lexicographic order of their characters' codes, each key once.
\<close>

theorem load_css_sorted:
  assumes "load_css conv keep stylesheet = Inr (table, cp)"
  shows "sorted (map fst table) \<and> distinct (map fst table)"
proof -
  from assms obtain icons cp0 where
    l: "load_rules conv stylesheet ([], None) = Inr (icons, cp0)"
    by (auto simp: load_css_def split: sum.splits)
  have d: "distinct (map fst icons)"
    using load_rules_distinct [OF _ l] by simp
  from assms l obtain icons1 where t: "table = sort_key fst icons1"
    and d1: "distinct (map fst icons1)"
    using d remove_prefix_distinct [of "[]" _ icons]
    by (auto simp: load_css_def Let_def split: if_splits)
  then show ?thesis by (simp add: distinct_map_sort_key)
qed


subsection \<open>A stylesheet with one icon rule\<close>

text \<open>The pattern on the selector \<^verbatim>\<open>.<name>:before\<close>: one match, whose group is the name.\<close>

lemma last_before_suffix: "last_before (name @ '':before'') = Some (length name)"
  by (induction name) simp_all

lemma is_icon_at_rule:
  assumes "CHR 0x0A \<notin> set name"
  shows "is_icon_at (CHR ''.'' # name @ '':before'') = Some (name, length name + 8)"
proof -
  from assms have "takeWhile (\<lambda>x. x \<noteq> CHR 0x0A) (name @ '':before'') = name @ '':before''"
    by auto
  then show ?thesis
    by (simp add: is_icon_at_def last_before_suffix)
qed

lemma is_icon_finditer_rule:
  assumes "CHR 0x0A \<notin> set name"
  shows "is_icon_finditer (CHR ''.'' # name @ '':before'') = [name]"
proof -
  have "is_icon_finditer [] = []" by (simp add: is_icon_finditer.simps)
  then show ?thesis
    by (subst is_icon_finditer.simps) (simp add: is_icon_at_rule [OF assms])
qed

text \<open>Rules that are not icon rules leave the dict and the prefix as they are.\<close>

lemma load_rules_skip:
  "\<forall>r \<in> set rs. \<not> is_icon_match (selector r)
     \<Longrightarrow> load_rules conv (rs @ rest) (icons, cp) = load_rules conv rest (icons, cp)"
  by (induction rs) simp_all

text \<open>The \<^verbatim>\<open>content\<close> values of the examples.\<close>

lemma strip_content_value:
  "CHR 0x0A \<notin> set hex \<Longrightarrow> drop (Suc 0) (strip_quotes (content_value hex)) = hex"
  by (simp add: strip_quotes_def quoted_def content_value_def is_quote_def butlast_append)

lemma hex_f101: "hex_codepoint ''f101'' = Some 61697"
  by (simp add: hex_codepoint_def hexdigit_def)

lemma hex_f102: "hex_codepoint ''f102'' = Some 61698"
  by (simp add: hex_codepoint_def hexdigit_def)

text \<open>
  C3. For a stylesheet whose only icon rule has the selector \<^verbatim>\<open>.<name>:before\<close> the common
  prefix should be the icon name. In the source the prefix is taken from \<^verbatim>\<open>selector[1:]\<close>,
  which still ends in \<^verbatim>\<open>:before\<close>: when the \<^verbatim>\<open>content\<close> declarations of the rule give the
  glyph \<open>ch\<close>, \<^verbatim>\<open>load_css\<close> returns the prefix \<open>name @ '':before''\<close>, not \<open>name\<close>; the table has
  one entry, whose key is the empty string when \<^verbatim>\<open>keep_prefix\<close> is false and the name
  otherwise.
\<close>

theorem load_css_single_rule:
  assumes sheet: "stylesheet = before @ [r] @ after"
    and others: "\<forall>x \<in> set before \<union> set after. \<not> is_icon_match (selector x)"
    and sel: "selector r = ''.'' @ name @ '':before''"
    and line: "CHR 0x0A \<notin> set name"
    and content: "set_content conv name (declarations r) [] = Inr [(name, ch)]"
  shows "load_css conv False stylesheet = Inr ([([], ch)], name @ '':before'')
       \<and> load_css conv True stylesheet = Inr ([(name, ch)], name @ '':before'')"
proof -
  have m: "is_icon_match (selector r)"
    by (simp add: is_icon_match_def sel is_icon_at_rule [OF line])
  have f: "is_icon_finditer (selector r) = [name]"
    by (simp add: sel is_icon_finditer_rule [OF line])
  have "load_rules conv stylesheet ([], None)
          = load_rules conv ([r] @ after) ([], None)"
    using others by (simp add: sheet load_rules_skip)
  also have "\<dots> = load_rules conv (after @ []) ([(name, ch)], Some (name @ '':before''))"
    using m f content by (simp add: sel)
  also have "\<dots> = Inr ([(name, ch)], Some (name @ '':before''))"
    using others by (subst load_rules_skip) simp_all
  finally show ?thesis
    by (simp add: load_css_def)
qed

subsection \<open>The example stylesheets\<close>

lemma icon_rule_match:
  "CHR 0x0A \<notin> set name \<Longrightarrow> is_icon_match (selector (icon_rule name hex))"
  by (simp add: is_icon_match_def icon_rule_def is_icon_at_rule)

lemma icon_rule_finditer:
  "CHR 0x0A \<notin> set name \<Longrightarrow> is_icon_finditer (selector (icon_rule name hex)) = [name]"
  by (simp add: icon_rule_def is_icon_finditer_rule)

lemma icon_rule_content:
  "CHR 0x0A \<notin> set hex \<Longrightarrow> hex_codepoint hex = Some ch
     \<Longrightarrow> set_content hex_codepoint name (declarations (icon_rule name hex)) icons
           = Inr (AList.update name ch icons)"
  by (simp add: icon_rule_def strip_content_value)

lemma icon_rule_selector: "drop (Suc 0) (selector (icon_rule name hex)) = name @ '':before''"
  by (simp add: icon_rule_def)

lemma two_rules_loaded:
  "load_rules hex_codepoint two_rules ([], None)
     = Inr ([(''icon-user'', 61698), (''icon-home'', 61697)], Some ''icon-'')"
  by (simp add: two_rules_def icon_rule_match icon_rule_finditer icon_rule_content
      icon_rule_selector hex_f101 hex_f102)

lemma two_rules_table:
  "load_css hex_codepoint False two_rules
     = Inr ([(''home'', 61697), (''user'', 61698)], ''icon-'')"
  by (simp add: load_css_def two_rules_loaded)

text \<open>The object of the examples is the one \<^verbatim>\<open>__init__\<close> builds from that stylesheet.\<close>

lemma example_font_loaded:
  "IconFont_init hex_codepoint two_rules ''icons.ttf'' False = Inr example_font"
  by (simp add: IconFont_init_def two_rules_table example_font_def)

lemma nested_prefix_loaded:
  "load_rules hex_codepoint nested_prefix_rules ([], None)
     = Inr ([(''aab'', 61697), (''ab'', 61698)], Some ''a'')"
  by (simp add: nested_prefix_rules_def icon_rule_match icon_rule_finditer icon_rule_content
      icon_rule_selector hex_f101 hex_f102)

text \<open>
  The claim C4 as the specification states it fails on the icons \<^verbatim>\<open>aab\<close> and \<^verbatim>\<open>ab\<close>: their
  common prefix is \<^verbatim>\<open>a\<close>, and the key \<^verbatim>\<open>ab\<close> of the table, which comes from \<^verbatim>\<open>aab\<close>, still has
  \<^verbatim>\<open>a\<close> as a strict prefix.
\<close>

theorem load_css_key_keeps_prefix:
  "load_css hex_codepoint True nested_prefix_rules
     = Inr ([(''aab'', 61697), (''ab'', 61698)], ''a'')
   \<and> load_css hex_codepoint False nested_prefix_rules
     = Inr ([(''ab'', 61697), (''b'', 61698)], ''a'')
   \<and> take (length ''a'') ''ab'' = ''a'' \<and> ''ab'' \<noteq> ''a''"
  by (simp add: load_css_def nested_prefix_loaded)

theorem load_css_sorted_witness:
  "load_css hex_codepoint False two_rules
     = Inr ([(''home'', 61697), (''user'', 61698)], ''icon-'')
   \<and> sorted (map fst [(''home'', 61697::nat), (''user'', 61698)])
   \<and> distinct (map fst [(''home'', 61697::nat), (''user'', 61698)])"
  using load_css_sorted [OF two_rules_table] two_rules_table by blast

subsection \<open>Removing the common prefix\<close>

lemma remove_prefix_keys:
  "fst ` set (remove_prefix n icons acc) = fst ` set acc \<union> drop n ` fst ` set icons"
  by (induction n icons acc rule: remove_prefix.induct) (auto simp: dom_update)

text \<open>
  C4, as the source has it. Let \<open>named\<close> be the table with the prefix kept, so that its
  keys are the icon names, and \<open>P\<close> the common prefix \<^verbatim>\<open>load_css\<close> returns. With
  \<^verbatim>\<open>keep_prefix\<close> false the keys of the table are exactly the icon names without their
  first \<open>length P\<close> characters; when every icon name starts with \<open>P\<close>, each key is an icon
  name with \<open>P\<close> removed from its start once. A key may itself start with \<open>P\<close>.
\<close>

theorem load_css_removes_prefix:
  assumes named: "load_css conv True stylesheet = Inr (named, P)"
    and shared: "\<forall>name \<in> fst ` set named. take (length P) name = P"
  shows "\<exists>table. load_css conv False stylesheet = Inr (table, P)
           \<and> fst ` set table = drop (length P) ` fst ` set named
           \<and> (\<forall>key \<in> fst ` set table. P @ key \<in> fst ` set named)"
proof -
  from named obtain icons cp where
    l: "load_rules conv stylesheet ([], None) = Inr (icons, cp)"
    and n: "named = sort_key fst icons"
    and p: "P = (case cp of None \<Rightarrow> [] | Some p \<Rightarrow> p)"
    by (auto simp: load_css_def Let_def split: sum.splits)
  let ?table = "sort_key fst (if 0 < length P then remove_prefix (length P) icons [] else icons)"
  have t: "load_css conv False stylesheet = Inr (?table, P)"
    using l p by (simp add: load_css_def Let_def)
  have keys: "fst ` set ?table = drop (length P) ` fst ` set named"
    by (simp add: n remove_prefix_keys image_image)
  have "P @ key \<in> fst ` set named" if "key \<in> fst ` set ?table" for key
  proof -
    from that keys obtain name where nm: "name \<in> fst ` set named"
      and k: "key = drop (length P) name"
      by blast
    from shared nm have "take (length P) name = P" by blast
    then have "P @ key = name" using k by (metis append_take_drop_id)
    with nm show ?thesis by simp
  qed
  with t keys show ?thesis by blast
qed

theorem load_css_removes_prefix_witness:
  "load_css hex_codepoint True two_rules
     = Inr ([(''icon-home'', 61697), (''icon-user'', 61698)], ''icon-'')
   \<and> take (length ''icon-'') ''icon-home'' = ''icon-''
   \<and> take (length ''icon-'') ''icon-user'' = ''icon-''
   \<and> load_css hex_codepoint False two_rules
     = Inr ([(''home'', 61697), (''user'', 61698)], ''icon-'')"
proof -
  have n: "load_css hex_codepoint True two_rules
     = Inr ([(''icon-home'', 61697), (''icon-user'', 61698)], ''icon-'')"
    by (simp add: load_css_def two_rules_loaded)
  have s: "\<forall>name \<in> fst ` set [(''icon-home'', 61697::nat), (''icon-user'', 61698)].
         take (length ''icon-'') name = ''icon-''"
    by simp
  from load_css_removes_prefix [OF n s] n two_rules_table show ?thesis by simp
qed

theorem load_css_single_rule_witness:
  "load_css hex_codepoint False [icon_rule ''a'' ''f101''] = Inr ([([], 61697)], ''a:before'')
   \<and> load_css hex_codepoint True [icon_rule ''a'' ''f101'']
       = Inr ([(''a'', 61697)], ''a:before'')"
proof -
  have c: "set_content hex_codepoint ''a'' (declarations (icon_rule ''a'' ''f101'')) []
             = Inr [(''a'', 61697)]"
    by (simp add: icon_rule_def strip_content_value hex_f101)
  from load_css_single_rule [of "[icon_rule ''a'' ''f101'']" "[]" "icon_rule ''a'' ''f101''" "[]"
      "''a''" hex_codepoint 61697, OF _ _ _ _ c]
  show ?thesis by (simp add: icon_rule_def)
qed

end
